theory Spec2Isabelle
  imports Complex_Main "HOL-Library.Char_ord" "HOL-Library.List_Lexorder"
begin

section \<open>Storage rows and responses\<close>

text \<open>
  The backend keeps five tables behind the knex handle \<^verbatim>\<open>db\<close>. A table is the list of its
  rows in storage order; \<^verbatim>\<open>.first()\<close> is \<open>find\<close>, \<^verbatim>\<open>.insert\<close> appends, \<^verbatim>\<open>.update\<close> maps over
  the rows the \<^verbatim>\<open>where\<close> selects. Identifiers and status values are the strings the code
  handles; a point in time is its number of milliseconds since the epoch, which is what the
  comparison of two \<^verbatim>\<open>Date\<close> objects compares.
\<close>

type_synonym id = string
type_synonym timestamp = int

datatype json = JNull | JBool bool | JNum rat | JStr string
  | JArr "json list" | JObj "(string \<times> json) list"

record user_row =
  usr_id :: id
  usr_email :: string
  usr_password_hash :: string
  usr_created_at :: timestamp

record company_row =
  c_id :: id
  c_user_id :: id
  c_name :: string
  c_industry :: string
  c_description :: "string option"
  c_logo_url :: "string option"
  c_created_at :: timestamp

record goods_service_row =
  g_id :: id
  g_company_id :: id
  g_name :: string
  g_description :: "string option"
  g_category :: string
  g_tags :: "string list"

record tender_row =
  t_id :: id
  t_company_id :: id
  t_title :: string
  t_description :: string
  t_budget :: "rat option"
  t_currency :: string
  t_deadline :: timestamp
  t_requirements :: "(string \<times> json) list option"
  t_attachments :: "string list option"
  t_status :: string
  t_created_at :: timestamp
  t_updated_at :: timestamp

record application_row =
  a_id :: id
  a_tender_id :: id
  a_company_id :: id
  a_proposal :: string
  a_quoted_price :: "rat option"
  a_currency :: string
  a_attachments :: "string list"
  a_status :: string
  a_submitted_at :: timestamp
  a_updated_at :: timestamp

record db =
  users :: "user_row list"
  companies :: "company_row list"
  goods_services :: "goods_service_row list"
  tenders :: "tender_row list"
  applications :: "application_row list"

text \<open>
  \<^verbatim>\<open>error.details[0].message\<close> of a failed Joi validation names the key and the rule that
  failed; the handlers' own messages are literal texts.
\<close>

datatype joi_error =
    Required string
  | Empty string
  | TooShort string nat
  | BadLength string nat
  | NotPositive string
  | NotGreaterNow string
  | NotGuid string
  | NotEmail string
  | NotValid string
  | NotAllowed string

datatype message = Text string | Joi joi_error

text \<open>
  Every handler answers \<^verbatim>\<open>res.status(n).json({success: true, data})\<close> or
  \<^verbatim>\<open>res.status(n).json({success: false, error: {message}})\<close>.
\<close>

datatype 'a response = Success nat 'a | Failure nat message

text \<open>\<^verbatim>\<open>req.user\<close> as \<^verbatim>\<open>authenticateToken\<close> leaves it: the decoded token payload.\<close>

record user_payload =
  up_id :: id
  up_email :: string
  companyId :: "string option"

text \<open>
  \<^verbatim>\<open>!companyId\<close>, \<^verbatim>\<open>if (status)\<close>, \<^verbatim>\<open>if (search)\<close>: an absent value and the empty
  string are both falsy.
\<close>

definition truthy :: "string option \<Rightarrow> bool" where
  "truthy v = (case v of None \<Rightarrow> False | Some s \<Rightarrow> s \<noteq> [])"

section \<open>Applications\<close>

subsection \<open>\<^verbatim>\<open>createApplicationSchema\<close>\<close>

text \<open>
  A request body after JSON decoding: every key of the schema is absent or carries a value of
  the schema's base type, and the keys the schema does not know are kept in \<open>ca_extra\<close>.
  Joi checks the keys in the order of the schema, stops at the first failure, refuses the
  empty string for a \<^verbatim>\<open>Joi.string()\<close> and refuses a key outside the schema. Its test of the
  uuid format is the parameter \<open>uuid\<close>. The validated value carries the default currency.
\<close>

record create_application_body =
  ca_tenderId :: "string option"
  ca_proposal :: "string option"
  ca_quotedPrice :: "rat option"
  ca_currency :: "string option"
  ca_attachments :: "string list option"
  ca_extra :: "(string \<times> json) list"

record application_value =
  av_tenderId :: string
  av_proposal :: string
  av_quotedPrice :: "rat option"
  av_currency :: string
  av_attachments :: "string list option"

definition createApplicationSchema ::
  "(string \<Rightarrow> bool) \<Rightarrow> create_application_body \<Rightarrow> joi_error + application_value" where
  "createApplicationSchema uuid b =
    (case ca_tenderId b of
       None \<Rightarrow> Inl (Required ''tenderId'')
     | Some tid \<Rightarrow>
       if tid = [] then Inl (Empty ''tenderId'')
       else if \<not> uuid tid then Inl (NotGuid ''tenderId'')
       else
        (case ca_proposal b of
           None \<Rightarrow> Inl (Required ''proposal'')
         | Some p \<Rightarrow>
           if p = [] then Inl (Empty ''proposal'')
           else if length p < 50 then Inl (TooShort ''proposal'' 50)
           else if (case ca_quotedPrice b of None \<Rightarrow> False | Some q \<Rightarrow> q \<le> 0)
             then Inl (NotPositive ''quotedPrice'')
           else if ca_currency b = Some [] then Inl (Empty ''currency'')
           else if (case ca_currency b of None \<Rightarrow> False | Some c \<Rightarrow> length c \<noteq> 3)
             then Inl (BadLength ''currency'' 3)
           else if (case ca_attachments b of None \<Rightarrow> False | Some xs \<Rightarrow> [] \<in> set xs)
             then Inl (Empty ''attachments'')
           else
            (case ca_extra b of
               (k, _) # _ \<Rightarrow> Inl (NotAllowed k)
             | [] \<Rightarrow>
               Inr \<lparr> av_tenderId = tid, av_proposal = p,
                     av_quotedPrice = ca_quotedPrice b,
                     av_currency = (case ca_currency b of None \<Rightarrow> ''USD'' | Some c \<Rightarrow> c),
                     av_attachments = ca_attachments b \<rparr>)))"

subsection \<open>\<^verbatim>\<open>router.post('/')\<close>: submit an application\<close>

text \<open>
  The handler awaits three queries in turn: the lookup of the tender, the lookup of an
  application of the caller's company for that tender, and the insert. No transaction and no
  lock holds them together, so other requests can write between them.
  \<open>post_application_checks\<close> is the handler up to the insert: \<open>d1\<close> is the store as the lookup
  of the tender sees it and \<open>d2\<close> the store as the lookup of the application sees it; the
  result is the response of the check that fails, or the company and the validated value
  with which the handler goes on to the insert. \<open>now\<close> is the clock reading of
  \<^verbatim>\<open>new Date()\<close>.
\<close>

type_synonym application_created = "id \<times> string \<times> rat option \<times> string \<times> string \<times> timestamp"

definition post_application_checks ::
  "(string \<Rightarrow> bool) \<Rightarrow> timestamp \<Rightarrow> db \<Rightarrow> db \<Rightarrow> user_payload \<Rightarrow> create_application_body \<Rightarrow>
   application_created response + (id \<times> application_value)" where
  "post_application_checks uuid now d1 d2 usr body =
    (case createApplicationSchema uuid body of
       Inl e \<Rightarrow> Inl (Failure 400 (Joi e))
     | Inr v \<Rightarrow>
       (case companyId usr of
          None \<Rightarrow> Inl (Failure 400 (Text ''No company associated with user''))
        | Some cid \<Rightarrow>
          if cid = [] then Inl (Failure 400 (Text ''No company associated with user''))
          else
           (case find (\<lambda>t. t_id t = av_tenderId v) (tenders d1) of
              None \<Rightarrow> Inl (Failure 404 (Text ''Tender not found''))
            | Some tender \<Rightarrow>
              if t_status tender \<noteq> ''open''
                then Inl (Failure 400 (Text ''Tender is not open for applications''))
              else if t_deadline tender < now
                then Inl (Failure 400 (Text ''Tender deadline has passed''))
              else
               (case find (\<lambda>a. a_tender_id a = av_tenderId v \<and> a_company_id a = cid)
                          (applications d2) of
                  Some existing \<Rightarrow>
                    Inl (Failure 409 (Text ''Company has already applied to this tender''))
                | None \<Rightarrow> Inr (cid, v)))))"

text \<open>
  The insert appends the row to the store \<open>d3\<close> it finds. The row gets its id, its status and
  its submission time from the database: \<open>nid\<close> is the generated id, \<open>dflt\<close> the column default
  of \<^verbatim>\<open>status\<close> and \<open>now\<close> the time of the insert. The response shows the columns
  \<^verbatim>\<open>id, proposal, quoted_price, currency, status, submitted_at\<close> of the new row. The insert
  itself tests nothing: the route relies on the lookup before it.
\<close>

definition post_application_insert ::
  "timestamp \<Rightarrow> id \<Rightarrow> string \<Rightarrow> db \<Rightarrow> id \<times> application_value \<Rightarrow>
   db \<times> application_created response" where
  "post_application_insert now nid dflt d3 pending =
    (case pending of (cid, v) \<Rightarrow>
       let row = \<lparr> a_id = nid, a_tender_id = av_tenderId v, a_company_id = cid,
                   a_proposal = av_proposal v,
                   a_quoted_price = av_quotedPrice v,
                   a_currency = av_currency v,
                   a_attachments = (case av_attachments v of None \<Rightarrow> [] | Some xs \<Rightarrow> xs),
                   a_status = dflt, a_submitted_at = now, a_updated_at = now \<rparr>
       in (d3\<lparr>applications := applications d3 @ [row]\<rparr>,
           Success 201 (a_id row, a_proposal row, a_quoted_price row,
                        a_currency row, a_status row, a_submitted_at row)))"

text \<open>
  \<open>post_application\<close> is a request that runs alone: its three queries see the same store,
  no other request writes in between.
\<close>

definition post_application ::
  "(string \<Rightarrow> bool) \<Rightarrow> timestamp \<Rightarrow> id \<Rightarrow> string \<Rightarrow> db \<Rightarrow> user_payload \<Rightarrow>
   create_application_body \<Rightarrow> db \<times> application_created response" where
  "post_application uuid now nid dflt d usr body =
    (case post_application_checks uuid now d d usr body of
       Inl answer \<Rightarrow> (d, answer)
     | Inr pending \<Rightarrow> post_application_insert now nid dflt d pending)"

subsection \<open>\<^verbatim>\<open>updateApplicationStatusSchema\<close> and \<^verbatim>\<open>router.patch('/:id/status')\<close>\<close>

record update_status_body =
  us_status :: "string option"
  us_extra :: "(string \<times> json) list"

definition updateApplicationStatusSchema :: "update_status_body \<Rightarrow> joi_error + string" where
  "updateApplicationStatusSchema b =
    (case us_status b of
       None \<Rightarrow> Inl (Required ''status'')
     | Some s \<Rightarrow>
       if s \<notin> set [''submitted'', ''under_review'', ''accepted'', ''rejected'']
         then Inl (NotValid ''status'')
       else (case us_extra b of (k, _) # _ \<Rightarrow> Inl (NotAllowed k) | [] \<Rightarrow> Inr s))"

text \<open>
  \<^verbatim>\<open>leftJoin\<close>: every left row with each right row the condition pairs it with, or once with
  no partner.
\<close>

definition left_join :: "'a list \<Rightarrow> 'b list \<Rightarrow> ('a \<Rightarrow> 'b \<Rightarrow> bool) \<Rightarrow> ('a \<times> 'b option) list" where
  "left_join xs ys on =
    concat (map (\<lambda>x. case filter (on x) ys of
                        [] \<Rightarrow> [(x, None)]
                      | m # ms \<Rightarrow> map (\<lambda>y. (x, Some y)) (m # ms)) xs)"

text \<open>
  The handler looks for the application among the applications joined with their tenders,
  keeping the rows whose tender belongs to the caller's company, then writes the validated
  status and the time of the update into every application row of that id. The response
  shows \<^verbatim>\<open>id, status, updated_at\<close> of the first updated row.
\<close>

definition patch_application_status ::
  "timestamp \<Rightarrow> db \<Rightarrow> user_payload \<Rightarrow> id \<Rightarrow> update_status_body \<Rightarrow>
   db \<times> (id \<times> string \<times> timestamp) option response" where
  "patch_application_status now d usr aid body =
    (case updateApplicationStatusSchema body of
       Inl e \<Rightarrow> (d, Failure 400 (Joi e))
     | Inr new_status \<Rightarrow>
       (case companyId usr of
          None \<Rightarrow> (d, Failure 400 (Text ''No company associated with user''))
        | Some cid \<Rightarrow>
          if cid = [] then (d, Failure 400 (Text ''No company associated with user''))
          else
           (case find (\<lambda>(a, t). a_id a = aid \<and>
                              (case t of None \<Rightarrow> False | Some t' \<Rightarrow> t_company_id t' = cid))
                      (left_join (applications d) (tenders d) (\<lambda>a t. a_tender_id a = t_id t)) of
              None \<Rightarrow> (d, Failure 404 (Text ''Application not found or access denied''))
            | Some application \<Rightarrow>
                let updated = map (\<lambda>a. if a_id a = aid
                                        then a\<lparr>a_status := new_status, a_updated_at := now\<rparr>
                                        else a) (applications d)
                in (d\<lparr>applications := updated\<rparr>,
                    Success 200 (map_option (\<lambda>a. (a_id a, a_status a, a_updated_at a))
                                   (find (\<lambda>a. a_id a = aid) updated))))))"

section \<open>Tenders\<close>

subsection \<open>\<^verbatim>\<open>createTenderSchema\<close> and \<^verbatim>\<open>updateTenderSchema\<close>\<close>

text \<open>
  The creation schema knows the keys \<^verbatim>\<open>title, description, budget, currency, deadline,
  requirements, attachments\<close>; the update schema knows these, all optional, and \<^verbatim>\<open>status\<close>.
  Any other key of a body, \<^verbatim>\<open>budget_min\<close> and \<^verbatim>\<open>budget_max\<close> among them, is in the
  \<open>extra\<close> field. \<^verbatim>\<open>greater('now')\<close> compares with the clock at validation.
\<close>

record create_tender_body =
  ct_title :: "string option"
  ct_description :: "string option"
  ct_budget :: "rat option"
  ct_currency :: "string option"
  ct_deadline :: "timestamp option"
  ct_requirements :: "(string \<times> json) list option"
  ct_attachments :: "string list option"
  ct_extra :: "(string \<times> json) list"

record tender_value =
  tv_title :: string
  tv_description :: string
  tv_budget :: "rat option"
  tv_currency :: string
  tv_deadline :: timestamp
  tv_requirements :: "(string \<times> json) list option"
  tv_attachments :: "string list option"

definition createTenderSchema :: "timestamp \<Rightarrow> create_tender_body \<Rightarrow> joi_error + tender_value" where
  "createTenderSchema now b =
    (case ct_title b of
       None \<Rightarrow> Inl (Required ''title'')
     | Some ti \<Rightarrow>
       if ti = [] then Inl (Empty ''title'')
       else if length ti < 5 then Inl (TooShort ''title'' 5)
       else
        (case ct_description b of
           None \<Rightarrow> Inl (Required ''description'')
         | Some de \<Rightarrow>
           if de = [] then Inl (Empty ''description'')
           else if length de < 20 then Inl (TooShort ''description'' 20)
           else if (case ct_budget b of None \<Rightarrow> False | Some q \<Rightarrow> q \<le> 0)
             then Inl (NotPositive ''budget'')
           else if ct_currency b = Some [] then Inl (Empty ''currency'')
           else if (case ct_currency b of None \<Rightarrow> False | Some c \<Rightarrow> length c \<noteq> 3)
             then Inl (BadLength ''currency'' 3)
           else
            (case ct_deadline b of
               None \<Rightarrow> Inl (Required ''deadline'')
             | Some dl \<Rightarrow>
               if \<not> now < dl then Inl (NotGreaterNow ''deadline'')
               else if (case ct_attachments b of None \<Rightarrow> False | Some xs \<Rightarrow> [] \<in> set xs)
                 then Inl (Empty ''attachments'')
               else
                (case ct_extra b of
                   (k, _) # _ \<Rightarrow> Inl (NotAllowed k)
                 | [] \<Rightarrow>
                   Inr \<lparr> tv_title = ti, tv_description = de, tv_budget = ct_budget b,
                         tv_currency = (case ct_currency b of None \<Rightarrow> ''USD'' | Some c \<Rightarrow> c),
                         tv_deadline = dl, tv_requirements = ct_requirements b,
                         tv_attachments = ct_attachments b \<rparr>))))"

record update_tender_body =
  ut_title :: "string option"
  ut_description :: "string option"
  ut_budget :: "rat option"
  ut_currency :: "string option"
  ut_deadline :: "timestamp option"
  ut_requirements :: "(string \<times> json) list option"
  ut_attachments :: "string list option"
  ut_status :: "string option"
  ut_extra :: "(string \<times> json) list"

definition updateTenderSchema :: "timestamp \<Rightarrow> update_tender_body \<Rightarrow> joi_error option" where
  "updateTenderSchema now b =
    (if ut_title b = Some [] then Some (Empty ''title'')
     else if (case ut_title b of None \<Rightarrow> False | Some ti \<Rightarrow> length ti < 5)
       then Some (TooShort ''title'' 5)
     else if ut_description b = Some [] then Some (Empty ''description'')
     else if (case ut_description b of None \<Rightarrow> False | Some de \<Rightarrow> length de < 20)
       then Some (TooShort ''description'' 20)
     else if (case ut_budget b of None \<Rightarrow> False | Some q \<Rightarrow> q \<le> 0)
       then Some (NotPositive ''budget'')
     else if ut_currency b = Some [] then Some (Empty ''currency'')
     else if (case ut_currency b of None \<Rightarrow> False | Some c \<Rightarrow> length c \<noteq> 3)
       then Some (BadLength ''currency'' 3)
     else if (case ut_deadline b of None \<Rightarrow> False | Some dl \<Rightarrow> \<not> now < dl)
       then Some (NotGreaterNow ''deadline'')
     else if (case ut_attachments b of None \<Rightarrow> False | Some xs \<Rightarrow> [] \<in> set xs)
       then Some (Empty ''attachments'')
     else if (case ut_status b of
                None \<Rightarrow> False
              | Some s \<Rightarrow> s \<notin> set [''draft'', ''open'', ''closed'', ''awarded''])
       then Some (NotValid ''status'')
     else (case ut_extra b of (k, _) # _ \<Rightarrow> Some (NotAllowed k) | [] \<Rightarrow> None))"

subsection \<open>\<^verbatim>\<open>router.post('/')\<close>: create a tender\<close>

text \<open>
  The row is the validated value with the caller's company; the database supplies the id
  \<open>nid\<close>, the default \<open>dflt\<close> of the status column and the timestamps. The response shows
  \<^verbatim>\<open>id, title, description, budget, currency, deadline, status\<close> and a timestamp.
\<close>

type_synonym tender_shown =
  "id \<times> string \<times> string \<times> rat option \<times> string \<times> timestamp \<times> string \<times> timestamp"

definition post_tender ::
  "timestamp \<Rightarrow> id \<Rightarrow> string \<Rightarrow> db \<Rightarrow> user_payload \<Rightarrow> create_tender_body \<Rightarrow>
   db \<times> tender_shown response" where
  "post_tender now nid dflt d usr body =
    (case createTenderSchema now body of
       Inl e \<Rightarrow> (d, Failure 400 (Joi e))
     | Inr v \<Rightarrow>
       (case companyId usr of
          None \<Rightarrow> (d, Failure 400 (Text ''No company associated with user''))
        | Some cid \<Rightarrow>
          if cid = [] then (d, Failure 400 (Text ''No company associated with user''))
          else
            let row = \<lparr> t_id = nid, t_company_id = cid, t_title = tv_title v,
                        t_description = tv_description v, t_budget = tv_budget v,
                        t_currency = tv_currency v, t_deadline = tv_deadline v,
                        t_requirements = tv_requirements v,
                        t_attachments = tv_attachments v, t_status = dflt,
                        t_created_at = now, t_updated_at = now \<rparr>
            in (d\<lparr>tenders := tenders d @ [row]\<rparr>,
                Success 201 (t_id row, t_title row, t_description row, t_budget row,
                             t_currency row, t_deadline row, t_status row, t_created_at row))))"

subsection \<open>\<^verbatim>\<open>router.put('/:id')\<close>: update a tender\<close>

text \<open>\<^verbatim>\<open>.update({...value, updated_at})\<close> writes the keys the body carries and no other.\<close>

definition apply_tender_update :: "timestamp \<Rightarrow> update_tender_body \<Rightarrow> tender_row \<Rightarrow> tender_row" where
  "apply_tender_update now v r =
     r\<lparr> t_title := (case ut_title v of None \<Rightarrow> t_title r | Some x \<Rightarrow> x),
        t_description := (case ut_description v of None \<Rightarrow> t_description r | Some x \<Rightarrow> x),
        t_budget := (case ut_budget v of None \<Rightarrow> t_budget r | Some x \<Rightarrow> Some x),
        t_currency := (case ut_currency v of None \<Rightarrow> t_currency r | Some x \<Rightarrow> x),
        t_deadline := (case ut_deadline v of None \<Rightarrow> t_deadline r | Some x \<Rightarrow> x),
        t_requirements :=
          (case ut_requirements v of None \<Rightarrow> t_requirements r | Some x \<Rightarrow> Some x),
        t_attachments :=
          (case ut_attachments v of None \<Rightarrow> t_attachments r | Some x \<Rightarrow> Some x),
        t_status := (case ut_status v of None \<Rightarrow> t_status r | Some x \<Rightarrow> x),
        t_updated_at := now \<rparr>"

definition put_tender ::
  "timestamp \<Rightarrow> db \<Rightarrow> user_payload \<Rightarrow> id \<Rightarrow> update_tender_body \<Rightarrow>
   db \<times> tender_shown option response" where
  "put_tender now d usr tid body =
    (case updateTenderSchema now body of
       Some e \<Rightarrow> (d, Failure 400 (Joi e))
     | None \<Rightarrow>
       (case companyId usr of
          None \<Rightarrow> (d, Failure 400 (Text ''No company associated with user''))
        | Some cid \<Rightarrow>
          if cid = [] then (d, Failure 400 (Text ''No company associated with user''))
          else
           (case find (\<lambda>t. t_id t = tid \<and> t_company_id t = cid) (tenders d) of
              None \<Rightarrow> (d, Failure 404 (Text ''Tender not found or access denied''))
            | Some existingTender \<Rightarrow>
                let updated = map (\<lambda>t. if t_id t = tid then apply_tender_update now body t else t)
                                  (tenders d)
                in (d\<lparr>tenders := updated\<rparr>,
                    Success 200
                      (map_option (\<lambda>t. (t_id t, t_title t, t_description t, t_budget t,
                                         t_currency t, t_deadline t, t_status t, t_updated_at t))
                         (find (\<lambda>t. t_id t = tid) updated))))))"

section \<open>Listing and search\<close>

subsection \<open>The \<^verbatim>\<open>ilike\<close> operator and paging\<close>

text \<open>
  \<^verbatim>\<open>ilike\<close> is the case-insensitive \<^verbatim>\<open>LIKE\<close> of the database: in the pattern \<open>%\<close> stands for
  any run of characters, \<open>_\<close> for any one character, and a backslash takes the next character
  literally. Case is folded on the ASCII letters. A null column matches nothing. The handlers
  build the pattern from the search text as \<^verbatim>\<open>`%${search}%`\<close>.
\<close>

definition lower :: "char \<Rightarrow> char" where
  "lower c = (if CHR ''A'' \<le> c \<and> c \<le> CHR ''Z'' then char_of (of_char c + (32::nat)) else c)"

fun like :: "string \<Rightarrow> string \<Rightarrow> bool" where
  "like [] s = (s = [])"
| "like (p # ps) s =
    (if p = CHR ''%'' then
       like ps s \<or> (case s of [] \<Rightarrow> False | c # s' \<Rightarrow> like (p # ps) s')
     else if p = CHR ''_'' then
       (case s of [] \<Rightarrow> False | c # s' \<Rightarrow> like ps s')
     else if p = CHR 0x5C then
       (case ps of
          [] \<Rightarrow> False
        | e # ps' \<Rightarrow> (case s of [] \<Rightarrow> False | c # s' \<Rightarrow> c = e \<and> like ps' s'))
     else
       (case s of [] \<Rightarrow> False | c # s' \<Rightarrow> c = p \<and> like ps s'))"

definition ilike :: "string \<Rightarrow> string \<Rightarrow> bool" where
  "ilike pat s = like (map lower pat) (map lower s)"

definition ilike_null :: "string \<Rightarrow> string option \<Rightarrow> bool" where
  "ilike_null pat v = (case v of None \<Rightarrow> False | Some s \<Rightarrow> ilike pat s)"

definition containing :: "string \<Rightarrow> string" where
  "containing text = ''%'' @ text @ ''%''"

text \<open>
  \<^verbatim>\<open>parseInt(req.query.page as string) || 1\<close>: the argument is the result of \<^verbatim>\<open>parseInt\<close>,
  \<open>None\<close> for \<^verbatim>\<open>NaN\<close>; \<^verbatim>\<open>NaN\<close> and \<open>0\<close> give the default.
\<close>

definition or_default :: "int option \<Rightarrow> int \<Rightarrow> int" where
  "or_default parsed dflt = (case parsed of None \<Rightarrow> dflt | Some n \<Rightarrow> if n = 0 then dflt else n)"

text \<open>
  \<^verbatim>\<open>.limit(limit).offset(offset)\<close> after the ordering. A negative limit or offset makes the
  query fail, which the handlers' \<^verbatim>\<open>catch\<close> turns into the 500 response; \<open>page_of\<close> is the
  slice of a page for the values that do not fail.
\<close>

definition page_of :: "int \<Rightarrow> int \<Rightarrow> 'a list \<Rightarrow> 'a list" where
  "page_of limit offset rows = take (nat limit) (drop (nat offset) rows)"

subsection \<open>\<^verbatim>\<open>router.get('/')\<close> of the tenders: the public listing\<close>

record tender_listing =
  tl_id :: id
  tl_title :: string
  tl_description :: string
  tl_budget :: "rat option"
  tl_currency :: string
  tl_deadline :: timestamp
  tl_status :: string
  tl_created_at :: timestamp
  tl_company_name :: "string option"
  tl_company_industry :: "string option"

definition listing :: "tender_row \<times> company_row option \<Rightarrow> tender_listing" where
  "listing tc = (case tc of (t, c) \<Rightarrow>
     \<lparr> tl_id = t_id t, tl_title = t_title t, tl_description = t_description t,
       tl_budget = t_budget t, tl_currency = t_currency t, tl_deadline = t_deadline t,
       tl_status = t_status t, tl_created_at = t_created_at t,
       tl_company_name = map_option c_name c,
       tl_company_industry = map_option c_industry c \<rparr>)"

record pagination =
  pg_page :: int
  pg_limit :: int
  pg_total :: int
  pg_pages :: int

text \<open>
  The query builder chains \<^verbatim>\<open>.where(status)\<close>, then for a search text
  \<^verbatim>\<open>.where(title ilike).orWhere(description ilike)\<close>. The chain is one flat condition
  \<^verbatim>\<open>status = ? and title ilike ? or description ilike ?\<close>, in which \<^verbatim>\<open>and\<close> binds tighter than
  \<^verbatim>\<open>or\<close>. The count of the total looks at the status alone.
\<close>

definition get_tenders ::
  "db \<Rightarrow> int option \<Rightarrow> int option \<Rightarrow> string option \<Rightarrow> string option \<Rightarrow>
   (tender_listing list \<times> pagination) response" where
  "get_tenders d page_parsed limit_parsed status search =
    (let page = or_default page_parsed 1;
         limit = or_default limit_parsed 10;
         wanted = (case status of None \<Rightarrow> ''open'' | Some s \<Rightarrow> if s = [] then ''open'' else s);
         joined = left_join (tenders d) (companies d) (\<lambda>t c. t_company_id t = c_id c);
         matching =
           filter (\<lambda>(t, c).
                     case search of
                       None \<Rightarrow> t_status t = wanted
                     | Some text \<Rightarrow>
                         if text = [] then t_status t = wanted
                         else (t_status t = wanted \<and> ilike (containing text) (t_title t))
                              \<or> ilike (containing text) (t_description t))
                  joined;
         offset = (page - 1) * limit;
         total = int (length (filter (\<lambda>t. t_status t = wanted) (tenders d)))
     in if limit < 0 \<or> offset < 0 then Failure 500 (Text ''Internal server error'')
        else Success 200
               (map listing (page_of limit offset (sort_key (\<lambda>(t, c). t_deadline t) matching)),
                \<lparr> pg_page = page, pg_limit = limit, pg_total = total,
                  pg_pages = (total + limit - 1) div limit \<rparr>))"

subsection \<open>\<^verbatim>\<open>router.get('/companies')\<close> and \<^verbatim>\<open>router.get('/tenders')\<close> of the search\<close>

record company_listing =
  cl_id :: id
  cl_name :: string
  cl_industry :: string
  cl_description :: "string option"
  cl_logo_url :: "string option"
  cl_created_at :: timestamp

definition company_listing_of :: "company_row \<Rightarrow> company_listing" where
  "company_listing_of c =
     \<lparr> cl_id = c_id c, cl_name = c_name c, cl_industry = c_industry c,
       cl_description = c_description c, cl_logo_url = c_logo_url c,
       cl_created_at = c_created_at c \<rparr>"

type_synonym goods_service_shown = "id \<times> string \<times> string option \<times> string \<times> string list"

record search_pagination =
  sp_page :: int
  sp_limit :: int
  hasMore :: bool

text \<open>
  The goods and services are joined only under a text query; the four text comparisons are
  grouped by \<^verbatim>\<open>where(function() {...})\<close>. \<^verbatim>\<open>.distinct()\<close> removes repeated selections, and
  the result is ordered by name: \<open>matching_companies\<close> is the whole result, of which the query
  returns one page. Each company of the page then gets up to five of its goods and services.
\<close>

definition matching_companies :: "db \<Rightarrow> string option \<Rightarrow> string option \<Rightarrow> company_listing list" where
  "matching_companies d query industry =
    (let joined =
           (case query of
              None \<Rightarrow> map (\<lambda>c. (c, None)) (companies d)
            | Some q \<Rightarrow>
                if q = [] then map (\<lambda>c. (c, None)) (companies d)
                else filter (\<lambda>(c, g).
                               ilike (containing q) (c_name c)
                               \<or> ilike_null (containing q) (c_description c)
                               \<or> ilike_null (containing q) (map_option g_name g)
                               \<or> ilike_null (containing q)
                                    (case g of None \<Rightarrow> None | Some g' \<Rightarrow> g_description g'))
                       (left_join (companies d) (goods_services d)
                          (\<lambda>c g. c_id c = g_company_id g)));
         filtered =
           (case industry of
              None \<Rightarrow> joined
            | Some i \<Rightarrow>
                if i = [] then joined
                else filter (\<lambda>(c, g). ilike (containing i) (c_industry c)) joined)
     in sort_key cl_name (remdups (map (\<lambda>(c, g). company_listing_of c) filtered)))"

definition goods_services_of :: "db \<Rightarrow> company_listing \<Rightarrow> goods_service_shown list" where
  "goods_services_of d company =
     map (\<lambda>g. (g_id g, g_name g, g_description g, g_category g, g_tags g))
       (take 5 (filter (\<lambda>g. g_company_id g = cl_id company) (goods_services d)))"

definition search_companies ::
  "db \<Rightarrow> string option \<Rightarrow> string option \<Rightarrow> int option \<Rightarrow> int option \<Rightarrow>
   ((company_listing \<times> goods_service_shown list) list \<times> search_pagination) response" where
  "search_companies d query industry page_parsed limit_parsed =
    (let page = or_default page_parsed 1;
         limit = or_default limit_parsed 10
     in if \<not> truthy query \<and> \<not> truthy industry
          then Failure 400 (Text ''Search query or industry filter is required'')
        else
          let offset = (page - 1) * limit
          in if limit < 0 \<or> offset < 0 then Failure 500 (Text ''Internal server error'')
             else
               let found = page_of limit offset (matching_companies d query industry);
                   companiesWithServices =
                     map (\<lambda>company. (company, goods_services_of d company)) found
               in Success 200
                    (companiesWithServices,
                     \<lparr> sp_page = page, sp_limit = limit,
                       hasMore = (int (length found) = limit) \<rparr>))"

text \<open>
  The tender search filters on the status first (\<^verbatim>\<open>req.query.status || 'open'\<close>), then on
  the grouped text comparisons, then on the industry of the joined company.
\<close>

definition matching_tenders ::
  "db \<Rightarrow> string option \<Rightarrow> string option \<Rightarrow> string option \<Rightarrow> tender_listing list" where
  "matching_tenders d query industry status_param =
    (let status = (case status_param of None \<Rightarrow> ''open'' | Some s \<Rightarrow> if s = [] then ''open'' else s);
         joined = left_join (tenders d) (companies d) (\<lambda>t c. t_company_id t = c_id c);
         with_status = filter (\<lambda>(t, c). t_status t = status) joined;
         with_query =
           (case query of
              None \<Rightarrow> with_status
            | Some q \<Rightarrow>
                if q = [] then with_status
                else filter (\<lambda>(t, c). ilike (containing q) (t_title t)
                                      \<or> ilike (containing q) (t_description t)) with_status);
         with_industry =
           (case industry of
              None \<Rightarrow> with_query
            | Some i \<Rightarrow>
                if i = [] then with_query
                else filter (\<lambda>(t, c). ilike_null (containing i) (map_option c_industry c))
                       with_query)
     in map listing (sort_key (\<lambda>(t, c). t_deadline t) with_industry))"

definition search_tenders ::
  "db \<Rightarrow> string option \<Rightarrow> string option \<Rightarrow> string option \<Rightarrow> int option \<Rightarrow> int option \<Rightarrow>
   (tender_listing list \<times> search_pagination) response" where
  "search_tenders d query industry status_param page_parsed limit_parsed =
    (let page = or_default page_parsed 1;
         limit = or_default limit_parsed 10;
         offset = (page - 1) * limit
     in if limit < 0 \<or> offset < 0 then Failure 500 (Text ''Internal server error'')
        else
          let found = page_of limit offset (matching_tenders d query industry status_param)
          in Success 200
               (found,
                \<lparr> sp_page = page, sp_limit = limit, hasMore = (int (length found) = limit) \<rparr>))"

section \<open>Registration\<close>

subsection \<open>\<^verbatim>\<open>registerSchema\<close>\<close>

record register_body =
  rb_email :: "string option"
  rb_password :: "string option"
  rb_companyName :: "string option"
  rb_industry :: "string option"
  rb_description :: "string option"
  rb_extra :: "(string \<times> json) list"

record register_value =
  rv_email :: string
  rv_password :: string
  rv_companyName :: string
  rv_industry :: string
  rv_description :: "string option"

text \<open>Joi's test of the email format is the parameter \<open>email_ok\<close>.\<close>

definition registerSchema ::
  "(string \<Rightarrow> bool) \<Rightarrow> register_body \<Rightarrow> joi_error + register_value" where
  "registerSchema email_ok b =
    (case rb_email b of
       None \<Rightarrow> Inl (Required ''email'')
     | Some em \<Rightarrow>
       if em = [] then Inl (Empty ''email'')
       else if \<not> email_ok em then Inl (NotEmail ''email'')
       else
        (case rb_password b of
           None \<Rightarrow> Inl (Required ''password'')
         | Some pw \<Rightarrow>
           if pw = [] then Inl (Empty ''password'')
           else if length pw < 8 then Inl (TooShort ''password'' 8)
           else
            (case rb_companyName b of
               None \<Rightarrow> Inl (Required ''companyName'')
             | Some cn \<Rightarrow>
               if cn = [] then Inl (Empty ''companyName'')
               else if length cn < 2 then Inl (TooShort ''companyName'' 2)
               else
                (case rb_industry b of
                   None \<Rightarrow> Inl (Required ''industry'')
                 | Some ind \<Rightarrow>
                   if ind = [] then Inl (Empty ''industry'')
                   else if length ind < 2 then Inl (TooShort ''industry'' 2)
                   else if rb_description b = Some [] then Inl (Empty ''description'')
                   else
                    (case rb_extra b of
                       (k, _) # _ \<Rightarrow> Inl (NotAllowed k)
                     | [] \<Rightarrow>
                       Inr \<lparr> rv_email = em, rv_password = pw, rv_companyName = cn,
                             rv_industry = ind, rv_description = rb_description b \<rparr>)))))"

subsection \<open>\<^verbatim>\<open>router.post('/register')\<close>\<close>

text \<open>
  An insert can fail in the storage layer (a constraint, a lost connection) and then throws:
  \<open>storage_faults\<close> says which of the two statements of the registration does. Inside
  \<^verbatim>\<open>db.transaction\<close> the statements run on the transaction handle \<^verbatim>\<open>trx\<close>: when the callback
  returns, its writes are committed, and when it throws, they are rolled back and the error
  reaches the handler's \<^verbatim>\<open>catch\<close>.
\<close>

record storage_faults =
  users_insert_throws :: bool
  companies_insert_throws :: bool

definition insert_user :: "storage_faults \<Rightarrow> user_row \<Rightarrow> db \<Rightarrow> db option" where
  "insert_user faults u d =
     (if users_insert_throws faults then None else Some (d\<lparr>users := users d @ [u]\<rparr>))"

definition insert_company :: "storage_faults \<Rightarrow> company_row \<Rightarrow> db \<Rightarrow> db option" where
  "insert_company faults c d =
     (if companies_insert_throws faults then None
      else Some (d\<lparr>companies := companies d @ [c]\<rparr>))"

definition transaction :: "db \<Rightarrow> (db \<Rightarrow> (db \<times> 'a) option) \<Rightarrow> db \<times> 'a option" where
  "transaction d callback =
     (case callback d of None \<Rightarrow> (d, None) | Some (trx, result) \<Rightarrow> (trx, Some result))"

text \<open>
  The signed token stands for the payload it carries. \<open>hash\<close> is \<^verbatim>\<open>bcrypt.hash\<close> with its
  twelve salt rounds; \<open>uid\<close> and \<open>cid\<close> are the ids the database generates for the two rows.
\<close>

datatype token = Token id string id

type_synonym registered = "token \<times> (id \<times> string) \<times> (id \<times> string \<times> string \<times> string option)"

definition register ::
  "(string \<Rightarrow> bool) \<Rightarrow> (string \<Rightarrow> string) \<Rightarrow> storage_faults \<Rightarrow> timestamp \<Rightarrow> id \<Rightarrow> id \<Rightarrow>
   db \<Rightarrow> register_body \<Rightarrow> db \<times> registered response" where
  "register email_ok hash faults now uid cid d body =
    (case registerSchema email_ok body of
       Inl e \<Rightarrow> (d, Failure 400 (Joi e))
     | Inr v \<Rightarrow>
       (case find (\<lambda>u. usr_email u = rv_email v) (users d) of
          Some existingUser \<Rightarrow> (d, Failure 409 (Text ''User with this email already exists''))
        | None \<Rightarrow>
            let passwordHash = hash (rv_password v);
                user = \<lparr> usr_id = uid, usr_email = rv_email v,
                         usr_password_hash = passwordHash, usr_created_at = now \<rparr>;
                company = \<lparr> c_id = cid, c_user_id = usr_id user, c_name = rv_companyName v,
                            c_industry = rv_industry v, c_description = rv_description v,
                            c_logo_url = None, c_created_at = now \<rparr>
            in (case transaction d
                       (\<lambda>trx. case insert_user faults user trx of
                                None \<Rightarrow> None
                              | Some trx1 \<Rightarrow>
                                 (case insert_company faults company trx1 of
                                    None \<Rightarrow> None
                                  | Some trx2 \<Rightarrow> Some (trx2, (user, company)))) of
                  (d', None) \<Rightarrow> (d', Failure 500 (Text ''Internal server error''))
                | (d', Some (u, c)) \<Rightarrow>
                    (d', Success 201
                           (Token (usr_id u) (usr_email u) (c_id c),
                            (usr_id u, usr_email u),
                            (c_id c, c_name c, c_industry c, c_description c))))))"

section \<open>The uniqueness invariant of the application ledger\<close>


section \<open>Example data\<close>

text \<open>
  Organization A owns a tender, organization B bids on it. The examples take a uuid test
  that looks at the length of the text only.
\<close>

definition uuid_shape :: "string \<Rightarrow> bool" where
  "uuid_shape s = (length s = 36)"

definition tender_one :: id where
  "tender_one = ''11111111-1111-4111-8111-111111111111''"

definition tender_absent :: id where
  "tender_absent = ''22222222-2222-4222-8222-222222222222''"

definition sample_tender :: "string \<Rightarrow> timestamp \<Rightarrow> tender_row" where
  "sample_tender st dl =
     \<lparr> t_id = tender_one, t_company_id = ''company-a'', t_title = ''Bridge repair'',
       t_description = ''Repair of the old stone bridge'', t_budget = Some 1000,
       t_currency = ''USD'', t_deadline = dl, t_requirements = None, t_attachments = None,
       t_status = st, t_created_at = 0, t_updated_at = 0 \<rparr>"

definition sample_application :: "string \<Rightarrow> application_row" where
  "sample_application st =
     \<lparr> a_id = ''application-1'', a_tender_id = tender_one, a_company_id = ''company-b'',
       a_proposal = ''We repair the bridge within four weeks, all materials included.'',
       a_quoted_price = Some 900, a_currency = ''USD'', a_attachments = [],
       a_status = st, a_submitted_at = 10, a_updated_at = 10 \<rparr>"

definition sample_db :: "tender_row list \<Rightarrow> application_row list \<Rightarrow> db" where
  "sample_db ts as =
     \<lparr> users = [], companies = [], goods_services = [], tenders = ts, applications = as \<rparr>"

definition owner :: user_payload where
  "owner = \<lparr> up_id = ''user-a'', up_email = ''a@x.com'', companyId = Some ''company-a'' \<rparr>"

definition bidder :: user_payload where
  "bidder = \<lparr> up_id = ''user-b'', up_email = ''b@x.com'', companyId = Some ''company-b'' \<rparr>"

definition sample_application_body :: create_application_body where
  "sample_application_body =
     \<lparr> ca_tenderId = Some tender_one,
       ca_proposal = Some ''We repair the bridge within four weeks, all materials included.'',
       ca_quotedPrice = Some 900, ca_currency = None, ca_attachments = None, ca_extra = [] \<rparr>"


definition status_body :: "string \<Rightarrow> update_status_body" where
  "status_body s = \<lparr> us_status = Some s, us_extra = [] \<rparr>"

definition tender_status_body :: "string \<Rightarrow> update_tender_body" where
  "tender_status_body s =
     \<lparr> ut_title = None, ut_description = None, ut_budget = None, ut_currency = None,
       ut_deadline = None, ut_requirements = None, ut_attachments = None,
       ut_status = Some s, ut_extra = [] \<rparr>"

definition sample_tender_body :: "rat option \<Rightarrow> (string \<times> json) list \<Rightarrow> create_tender_body" where
  "sample_tender_body b extra =
     \<lparr> ct_title = Some ''Bridge repair'',
       ct_description = Some ''Repair of the old stone bridge'',
       ct_budget = b, ct_currency = None, ct_deadline = Some 9000,
       ct_requirements = None, ct_attachments = None, ct_extra = extra \<rparr>"

definition sample_company :: "id \<Rightarrow> string \<Rightarrow> company_row" where
  "sample_company i n =
     \<lparr> c_id = i, c_user_id = ''user-'' @ i, c_name = n, c_industry = ''Construction'',
       c_description = None, c_logo_url = None, c_created_at = 0 \<rparr>"

definition directory_db :: db where
  "directory_db =
     \<lparr> users = [],
       companies = [sample_company ''company-b'' ''Stone Works'',
                    sample_company ''company-a'' ''Bridge Builders''],
       goods_services = [],
       tenders = [(sample_tender ''open'' 9000)\<lparr>t_id := ''t2''\<rparr>, sample_tender ''open'' 8000],
       applications = [] \<rparr>"

definition sample_register_body :: register_body where
  "sample_register_body =
     \<lparr> rb_email = Some ''a@x.com'', rb_password = Some ''correct horse'',
       rb_companyName = Some ''Bridge Builders'', rb_industry = Some ''Construction'',
       rb_description = None, rb_extra = [] \<rparr>"

definition email_shape :: "string \<Rightarrow> bool" where
  "email_shape s = (CHR ''@'' \<in> set s)"

definition sample_hash :: "string \<Rightarrow> string" where
  "sample_hash password = ''hash of '' @ password"

definition company_insert_fails :: storage_faults where
  "company_insert_fails = \<lparr> users_insert_throws = False, companies_insert_throws = True \<rparr>"

definition no_faults :: storage_faults where
  "no_faults = \<lparr> users_insert_throws = False, companies_insert_throws = False \<rparr>"

section \<open>Facts about the validation schemas\<close>


lemma sample_application_body_valid:
  "createApplicationSchema uuid_shape sample_application_body =
     Inr \<lparr> av_tenderId = tender_one,
           av_proposal = ''We repair the bridge within four weeks, all materials included.'',
           av_quotedPrice = Some 900, av_currency = ''USD'', av_attachments = None \<rparr>"
  by (simp add: createApplicationSchema_def sample_application_body_def uuid_shape_def
      tender_one_def)

section \<open>Submitting an application\<close>









text \<open>
  Claim C3, as the code has it. A valid submission by a caller with a company against an
  existing tender whose deadline is in the past adds no row and is answered with 400:
  with the deadline error when the tender is open, and with the error of the status check,
  which comes first, when the tender has any other status.
\<close>

theorem post_application_past_deadline:
  assumes "createApplicationSchema uuid body = Inr v"
    and "companyId usr = Some cid" and "cid \<noteq> []"
    and "find (\<lambda>t. t_id t = av_tenderId v) (tenders d) = Some t"
    and "t_deadline t < now"
  shows "post_application uuid now nid dflt d usr body =
           (d, Failure 400 (Text (if t_status t = ''open'' then ''Tender deadline has passed''
                                  else ''Tender is not open for applications'')))"
  using assms unfolding post_application_def post_application_checks_def by simp

text \<open>
  The theorem at an example: an open tender whose deadline has passed.
\<close>

theorem post_application_past_deadline_witness:
  "post_application uuid_shape 5000 ''application-2'' ''submitted''
     (sample_db [sample_tender ''open'' 4000] []) bidder sample_application_body =
   (sample_db [sample_tender ''open'' 4000] [],
    Failure 400 (Text ''Tender deadline has passed''))"
proof -
  have f: "find (\<lambda>t. t_id t = tender_one) (tenders (sample_db [sample_tender ''open'' 4000] []))
             = Some (sample_tender ''open'' 4000)"
    by (simp add: sample_db_def sample_tender_def)
  have c: "companyId bidder = Some ''company-b''" by (simp add: bidder_def)
  have dl: "t_deadline (sample_tender ''open'' 4000) < 5000" by (simp add: sample_tender_def)
  have st: "t_status (sample_tender ''open'' 4000) = ''open''" by (simp add: sample_tender_def)
  show ?thesis
    using post_application_past_deadline [OF sample_application_body_valid c _ _ dl,
        of "sample_db [sample_tender ''open'' 4000] []" "''application-2''" "''submitted''"] f st
    by simp
qed

text \<open>
  Claim C3 as it is written fails: for a closed tender whose deadline has passed the answer
  is the error of the status check and not the deadline error.
\<close>

theorem post_application_past_deadline_closed:
  "t_deadline (sample_tender ''closed'' 4000) < 5000 \<and>
   post_application uuid_shape 5000 ''application-2'' ''submitted''
     (sample_db [sample_tender ''closed'' 4000] []) bidder sample_application_body =
   (sample_db [sample_tender ''closed'' 4000] [],
    Failure 400 (Text ''Tender is not open for applications'')) \<and>
   Text ''Tender is not open for applications'' \<noteq> Text ''Tender deadline has passed''"
  by (simp add: post_application_def post_application_checks_def
      sample_application_body_valid sample_db_def sample_tender_def bidder_def)


section \<open>Updating the status of an application\<close>

lemma left_join_partner:
  "(x, Some y) \<in> set (left_join xs ys on) \<longleftrightarrow> x \<in> set xs \<and> y \<in> set ys \<and> on x y"
proof -
  have row: "(x, Some y) \<in> set (case filter (on x') ys of
                 [] \<Rightarrow> [(x', None)]
               | m # ms \<Rightarrow> map (\<lambda>y. (x', Some y)) (m # ms)) \<longleftrightarrow>
             x = x' \<and> y \<in> set ys \<and> on x y" for x'
  proof (cases "filter (on x') ys")
    case Nil
    then have "\<forall>y\<in>set ys. \<not> on x' y" by (simp add: filter_empty_conv)
    with Nil show ?thesis by auto
  next
    case (Cons m ms)
    have "set (m # ms) = {y \<in> set ys. on x' y}"
      using Cons [symmetric] by simp
    with Cons show ?thesis by auto
  qed
  show ?thesis
    unfolding left_join_def using row by auto
qed

lemma find_updated_status:
  "\<exists>a\<in>set xs. a_id a = aid \<Longrightarrow>
   map_option (\<lambda>a. (a_id a, a_status a, a_updated_at a))
     (find (\<lambda>a. a_id a = aid)
        (map (\<lambda>a. if a_id a = aid then a\<lparr>a_status := s, a_updated_at := now\<rparr> else a) xs))
   = Some (aid, s, now)"
  by (induction xs) auto

text \<open>
  Claim C5, as the code has it. For every application of a tender that the caller's company
  owns and every status among submitted, under_review, accepted and rejected (the values the
  schema of the route lists), the update is accepted: the status is stored as given in every
  row of that id, together with the time of the update, and the response is 200 with the new
  status. The status the application had plays no part.
\<close>

theorem patch_application_status_as_given:
  assumes "us_status body = Some s" and "us_extra body = []"
    and "s \<in> {''submitted'', ''under_review'', ''accepted'', ''rejected''}"
    and "companyId usr = Some cid" and "cid \<noteq> []"
    and "a \<in> set (applications d)" and "a_id a = aid"
    and "t \<in> set (tenders d)" and "t_id t = a_tender_id a" and "t_company_id t = cid"
  shows "patch_application_status now d usr aid body =
     (d\<lparr>applications :=
          map (\<lambda>r. if a_id r = aid then r\<lparr>a_status := s, a_updated_at := now\<rparr> else r)
            (applications d)\<rparr>,
      Success 200 (Some (aid, s, now)))"
proof -
  have valid: "updateApplicationStatusSchema body = Inr s"
    using assms(1,2,3) by (auto simp: updateApplicationStatusSchema_def)
  have "(a, Some t) \<in> set (left_join (applications d) (tenders d) (\<lambda>a t. a_tender_id a = t_id t))"
    using assms(6,8,9) by (simp add: left_join_partner)
  then have "\<exists>p. p \<in> set (left_join (applications d) (tenders d)
                              (\<lambda>a t. a_tender_id a = t_id t)) \<and>
               (case p of (a, t) \<Rightarrow> a_id a = aid \<and>
                      (case t of None \<Rightarrow> False | Some t' \<Rightarrow> t_company_id t' = cid))"
    using assms(7,10) by (intro exI [of _ "(a, Some t)"]) simp
  then have found: "find (\<lambda>(a, t). a_id a = aid \<and>
                      (case t of None \<Rightarrow> False | Some t' \<Rightarrow> t_company_id t' = cid))
             (left_join (applications d) (tenders d) (\<lambda>a t. a_tender_id a = t_id t)) \<noteq> None"
    unfolding find_None_iff by blast
  have shown: "map_option (\<lambda>a. (a_id a, a_status a, a_updated_at a))
     (find (\<lambda>a. a_id a = aid)
        (map (\<lambda>a. if a_id a = aid then a\<lparr>a_status := s, a_updated_at := now\<rparr> else a)
           (applications d))) = Some (aid, s, now)"
    using assms(6,7) by (intro find_updated_status) blast
  show ?thesis
    using valid assms(4,5) found shown
    unfolding patch_application_status_def
    by (auto simp: Let_def split: option.splits)
qed

text \<open>
  The theorem at an example: the owner of the tender moves a rejected application to accepted.
\<close>

theorem patch_application_status_as_given_witness:
  "patch_application_status 7000
     (sample_db [sample_tender ''open'' 9000] [sample_application ''rejected''])
     owner ''application-1'' (status_body ''accepted'') =
   (sample_db [sample_tender ''open'' 9000]
      [(sample_application ''rejected'')\<lparr>a_status := ''accepted'', a_updated_at := 7000\<rparr>],
    Success 200 (Some (''application-1'', ''accepted'', 7000)))"
  using patch_application_status_as_given [of "status_body ''accepted''" "''accepted''"
      owner "''company-a''" "sample_application ''rejected''"
      "sample_db [sample_tender ''open'' 9000] [sample_application ''rejected'']"
      "''application-1''" "sample_tender ''open'' 9000" 7000]
  by (simp add: status_body_def owner_def sample_db_def sample_application_def
      sample_tender_def)

text \<open>
  Claim C5 as it is written fails at the status shortlisted: the schema of the route does not
  list it, and the update by the owner of the tender is refused with 400.
\<close>

theorem patch_application_status_shortlisted:
  "patch_application_status 7000
     (sample_db [sample_tender ''open'' 9000] [sample_application ''under_review''])
     owner ''application-1'' (status_body ''shortlisted'') =
   (sample_db [sample_tender ''open'' 9000] [sample_application ''under_review''],
    Failure 400 (Joi (NotValid ''status'')))"
  by (simp add: patch_application_status_def updateApplicationStatusSchema_def status_body_def)

text \<open>
  The status shortlisted is refused for every store, caller and application: the schema is
  checked first.
\<close>

lemma patch_application_status_shortlisted_refused:
  "us_status body = Some ''shortlisted'' \<Longrightarrow>
   patch_application_status now d usr aid body = (d, Failure 400 (Joi (NotValid ''status'')))"
  by (simp add: patch_application_status_def updateApplicationStatusSchema_def)

section \<open>Updating a tender\<close>

text \<open>
  Claim C2. A caller with a company asks to update a tender that exists and belongs to
  another company, and asks the same for an id that no tender has: the two answers, and the
  two resulting stores, are equal, for every body. For a body that passes the validation the
  answer is the 404 with the message of the handler, and the store is unchanged.
\<close>

theorem put_tender_not_distinguishing:
  assumes "companyId usr = Some cid" and "cid \<noteq> []"
    and "t \<in> set (tenders d)" and "t_id t = tid"
    and "\<forall>t\<in>set (tenders d). t_id t = tid \<longrightarrow> t_company_id t \<noteq> cid"
    and "\<forall>t\<in>set (tenders d). t_id t \<noteq> absent"
  shows "put_tender now d usr tid body = put_tender now d usr absent body \<and>
         (updateTenderSchema now body = None \<longrightarrow>
            put_tender now d usr tid body =
              (d, Failure 404 (Text ''Tender not found or access denied'')))"
proof -
  have "find (\<lambda>t. t_id t = tid \<and> t_company_id t = cid) (tenders d) = None"
    using assms(5) by (auto simp: find_None_iff)
  moreover have "find (\<lambda>t. t_id t = absent \<and> t_company_id t = cid) (tenders d) = None"
    using assms(6) by (auto simp: find_None_iff)
  ultimately show ?thesis
    using assms(1,2) unfolding put_tender_def by (simp split: option.splits)
qed

text \<open>
  The theorem at an example: B asks to close the tender of A, and a tender that is not there.
\<close>

theorem put_tender_not_distinguishing_witness:
  "put_tender 5000 (sample_db [sample_tender ''open'' 9000] []) bidder tender_one
     (tender_status_body ''closed'') =
   put_tender 5000 (sample_db [sample_tender ''open'' 9000] []) bidder tender_absent
     (tender_status_body ''closed'') \<and>
   put_tender 5000 (sample_db [sample_tender ''open'' 9000] []) bidder tender_one
     (tender_status_body ''closed'') =
   (sample_db [sample_tender ''open'' 9000] [],
    Failure 404 (Text ''Tender not found or access denied''))"
proof -
  let ?d = "sample_db [sample_tender ''open'' 9000] []"
  have c: "companyId bidder = Some ''company-b''" and n: "''company-b'' \<noteq> []"
    by (simp_all add: bidder_def)
  have m: "sample_tender ''open'' 9000 \<in> set (tenders ?d)"
    and i: "t_id (sample_tender ''open'' 9000) = tender_one"
    by (simp_all add: sample_db_def sample_tender_def)
  have o: "\<forall>t\<in>set (tenders ?d). t_id t = tender_one \<longrightarrow> t_company_id t \<noteq> ''company-b''"
    and a: "\<forall>t\<in>set (tenders ?d). t_id t \<noteq> tender_absent"
    by (simp_all add: sample_db_def sample_tender_def tender_one_def tender_absent_def)
  have v: "updateTenderSchema 5000 (tender_status_body ''closed'') = None"
    by (simp add: updateTenderSchema_def tender_status_body_def)
  from put_tender_not_distinguishing [OF c n m i o a, of 5000 "tender_status_body ''closed''"] v
  show ?thesis by blast
qed

lemma apply_tender_update_status:
  "t_status (apply_tender_update now body t) =
     (case ut_status body of None \<Rightarrow> t_status t | Some s \<Rightarrow> s)"
  by (simp add: apply_tender_update_def)

text \<open>
  Claim C4, as the code has it. When the owning company updates a tender with a body that
  passes the validation, every row of that id gets the status of the body, one of draft,
  open, closed and awarded, whatever status it had; a body without a status leaves the
  status as it was; the other tenders keep theirs.
\<close>

theorem put_tender_status_as_given:
  assumes "updateTenderSchema now body = None"
    and "companyId usr = Some cid" and "cid \<noteq> []"
    and "find (\<lambda>t. t_id t = tid \<and> t_company_id t = cid) (tenders d) = Some t"
  shows "map (\<lambda>r. (t_id r, t_status r)) (tenders (fst (put_tender now d usr tid body))) =
         map (\<lambda>r. (t_id r, if t_id r = tid
                           then (case ut_status body of None \<Rightarrow> t_status r | Some s \<Rightarrow> s)
                           else t_status r)) (tenders d)"
  using assms unfolding put_tender_def
  by (simp add: Let_def apply_tender_update_status) (simp add: apply_tender_update_def)

text \<open>
  The theorem at an example: the owner sets an awarded tender back to draft.
\<close>

theorem put_tender_status_as_given_witness:
  "map (\<lambda>r. (t_id r, t_status r))
     (tenders (fst (put_tender 5000 (sample_db [sample_tender ''awarded'' 9000] []) owner
                      tender_one (tender_status_body ''draft'')))) =
   [(tender_one, ''draft'')]"
  using put_tender_status_as_given [of 5000 "tender_status_body ''draft''" owner "''company-a''"
      tender_one "sample_db [sample_tender ''awarded'' 9000] []" "sample_tender ''awarded'' 9000"]
  by (simp add: updateTenderSchema_def tender_status_body_def owner_def sample_db_def
      sample_tender_def)

text \<open>
  Claim C4 as it is written fails: the owner updates a closed tender with the status open,
  and the tender is open afterwards.
\<close>

theorem put_tender_reopens_closed:
  "t_status (sample_tender ''closed'' 9000) = ''closed'' \<and>
   put_tender 5000 (sample_db [sample_tender ''closed'' 9000] []) owner tender_one
     (tender_status_body ''open'') =
   (sample_db [(sample_tender ''closed'' 9000)\<lparr>t_status := ''open'', t_updated_at := 5000\<rparr>] [],
    Success 200 (Some (tender_one, ''Bridge repair'', ''Repair of the old stone bridge'',
                       Some 1000, ''USD'', 9000, ''open'', 5000)))"
  by (simp add: put_tender_def updateTenderSchema_def tender_status_body_def owner_def
      sample_db_def sample_tender_def apply_tender_update_def)


text \<open>
  Only the owning company changes a tender: an update by a caller whose company owns no
  tender of that id leaves the store as it is.
\<close>

lemma put_tender_not_owner_unchanged:
  assumes "\<forall>t\<in>set (tenders d). t_id t = tid \<longrightarrow> Some (t_company_id t) \<noteq> companyId usr"
  shows "fst (put_tender now d usr tid body) = d"
proof (cases "companyId usr")
  case None
  then show ?thesis by (simp add: put_tender_def split: option.splits)
next
  case (Some cid)
  with assms have "find (\<lambda>t. t_id t = tid \<and> t_company_id t = cid) (tenders d) = None"
    by (auto simp: find_None_iff)
  with Some show ?thesis by (simp add: put_tender_def split: option.splits)
qed

section \<open>Creating a tender\<close>

lemma createTenderSchema_extra:
  "ct_extra body \<noteq> [] \<Longrightarrow> \<exists>e. createTenderSchema now body = Inl e"
  unfolding createTenderSchema_def
  by (cases "ct_extra body") (auto split: option.splits)

lemma createTenderSchema_budget:
  "ct_budget body = Some q \<Longrightarrow> q \<le> 0 \<Longrightarrow> \<exists>e. createTenderSchema now body = Inl e"
  unfolding createTenderSchema_def
  by (auto split: option.splits list.splits)

lemma createTenderSchema_value:
  "createTenderSchema now body = Inr v \<Longrightarrow>
     ct_extra body = [] \<and> tv_budget v = ct_budget body \<and> (\<forall>q. ct_budget body = Some q \<longrightarrow> 0 < q)"
  unfolding createTenderSchema_def
  by (auto split: option.splits list.splits if_splits)

text \<open>
  Claim C7. The creation schema knows one budget key, \<^verbatim>\<open>budget\<close>, and no bounds: a body that
  carries \<^verbatim>\<open>budget_min\<close> or \<^verbatim>\<open>budget_max\<close>, whatever their values, and so every body in which
  both are present with the minimum above the maximum or with a bound that is not positive,
  is refused with a 400 validation error and stores nothing; so is a body whose budget is not
  positive. A tender that is created comes from a body without keys outside the schema:
  the stored row carries neither bound, and its budget, when it has one, is positive.
\<close>

theorem post_tender_budget:
  "((''budget_min'' \<in> fst ` set (ct_extra body) \<or> ''budget_max'' \<in> fst ` set (ct_extra body) \<or>
     (\<exists>q. ct_budget body = Some q \<and> q \<le> 0)) \<longrightarrow>
      (\<exists>e. post_tender now nid dflt d usr body = (d, Failure 400 (Joi e)))) \<and>
   (\<forall>d' shown. post_tender now nid dflt d usr body = (d', Success 201 shown) \<longrightarrow>
      ct_extra body = [] \<and>
      (\<exists>row. tenders d' = tenders d @ [row] \<and> t_budget row = ct_budget body \<and>
             (\<forall>q. t_budget row = Some q \<longrightarrow> 0 < q)))"
proof (intro conjI impI allI)
  assume "''budget_min'' \<in> fst ` set (ct_extra body) \<or> ''budget_max'' \<in> fst ` set (ct_extra body) \<or>
     (\<exists>q. ct_budget body = Some q \<and> q \<le> 0)"
  then have "ct_extra body \<noteq> [] \<or> (\<exists>q. ct_budget body = Some q \<and> q \<le> 0)" by auto
  then obtain e where "createTenderSchema now body = Inl e"
    using createTenderSchema_extra createTenderSchema_budget by blast
  then show "\<exists>e. post_tender now nid dflt d usr body = (d, Failure 400 (Joi e))"
    by (simp add: post_tender_def)
next
  fix d' shown
  assume ok: "post_tender now nid dflt d usr body = (d', Success 201 shown)"
  then obtain v where v: "createTenderSchema now body = Inr v"
    unfolding post_tender_def by (auto split: sum.splits)
  from createTenderSchema_value [OF v] show "ct_extra body = []" by simp
  from ok v createTenderSchema_value [OF v]
  show "\<exists>row. tenders d' = tenders d @ [row] \<and> t_budget row = ct_budget body \<and>
             (\<forall>q. t_budget row = Some q \<longrightarrow> 0 < q)"
    unfolding post_tender_def
    by (auto split: option.splits if_splits simp: Let_def)
qed

text \<open>
  The theorem at an example: a body with a minimum of 500 above a maximum of 100.
\<close>

theorem post_tender_budget_witness:
  "''budget_min'' \<in> fst ` set [(''budget_min'', JNum 500), (''budget_max'', JNum 100)] \<and>
   (\<exists>e. post_tender 5000 ''t9'' ''open'' (sample_db [] []) owner
          (sample_tender_body None [(''budget_min'', JNum 500), (''budget_max'', JNum 100)]) =
        (sample_db [] [], Failure 400 (Joi e))) \<and>
   createTenderSchema 5000
     (sample_tender_body None [(''budget_min'', JNum 500), (''budget_max'', JNum 100)]) =
     Inl (NotAllowed ''budget_min'')"
proof -
  let ?body = "sample_tender_body None [(''budget_min'', JNum 500), (''budget_max'', JNum 100)]"
  have present: "''budget_min'' \<in> fst ` set (ct_extra ?body)"
    by (simp add: sample_tender_body_def)
  from post_tender_budget [of ?body 5000 "''t9''" "''open''" "sample_db [] []" owner] present
  have "\<exists>e. post_tender 5000 ''t9'' ''open'' (sample_db [] []) owner ?body =
          (sample_db [] [], Failure 400 (Joi e))"
    by blast
  moreover have "createTenderSchema 5000 ?body = Inl (NotAllowed ''budget_min'')"
    by (simp add: createTenderSchema_def sample_tender_body_def)
  ultimately show ?thesis by simp
qed

section \<open>Registration\<close>

lemma register_result:
  "register email_ok hash faults now uid cid d body =
    (case registerSchema email_ok body of
       Inl e \<Rightarrow> (d, Failure 400 (Joi e))
     | Inr v \<Rightarrow>
        if find (\<lambda>u. usr_email u = rv_email v) (users d) \<noteq> None
          then (d, Failure 409 (Text ''User with this email already exists''))
        else if users_insert_throws faults \<or> companies_insert_throws faults
          then (d, Failure 500 (Text ''Internal server error''))
        else
          (d\<lparr>users := users d @
                 [\<lparr> usr_id = uid, usr_email = rv_email v,
                     usr_password_hash = hash (rv_password v), usr_created_at = now \<rparr>],
              companies := companies d @
                 [\<lparr> c_id = cid, c_user_id = uid, c_name = rv_companyName v,
                     c_industry = rv_industry v, c_description = rv_description v,
                     c_logo_url = None, c_created_at = now \<rparr>]\<rparr>,
           Success 201 (Token uid (rv_email v) cid, (uid, rv_email v),
                        (cid, rv_companyName v, rv_industry v, rv_description v))))"
  unfolding register_def transaction_def insert_user_def insert_company_def
  by (auto simp: Let_def split: sum.splits option.splits)

text \<open>
  Claim C8. Whatever the request and whichever of the two inserts fails, a registration
  either leaves the store as it was and answers with a failure, or adds exactly one account
  row and one organization row that refers to it and answers with 201. No outcome adds one
  of the two rows without the other.
\<close>

theorem register_atomic:
  "register email_ok hash faults now uid cid d body = (d', r) \<Longrightarrow>
   (d' = d \<and> (\<exists>n m. r = Failure n m)) \<or>
   (\<exists>u c shown. d' = d\<lparr>users := users d @ [u], companies := companies d @ [c]\<rparr> \<and>
        usr_id u = uid \<and> c_id c = cid \<and> c_user_id c = usr_id u \<and> r = Success 201 shown)"
proof -
  assume eq: "register email_ok hash faults now uid cid d body = (d', r)"
  show ?thesis
  proof (cases "registerSchema email_ok body")
    case (Inl e)
    with eq have "d' = d \<and> (\<exists>n m. r = Failure n m)"
      by (auto simp: register_result)
    then show ?thesis by (rule disjI1)
  next
    case (Inr v)
    let ?u = "\<lparr> usr_id = uid, usr_email = rv_email v,
                usr_password_hash = hash (rv_password v), usr_created_at = now \<rparr>"
    let ?c = "\<lparr> c_id = cid, c_user_id = uid, c_name = rv_companyName v,
                c_industry = rv_industry v, c_description = rv_description v,
                c_logo_url = None, c_created_at = now \<rparr>"
    show ?thesis
    proof (cases "find (\<lambda>u. usr_email u = rv_email v) (users d) \<noteq> None
                  \<or> users_insert_throws faults \<or> companies_insert_throws faults")
      case True
      with eq Inr have "d' = d \<and> (\<exists>n m. r = Failure n m)"
        by (auto simp: register_result split: if_splits)
      then show ?thesis by (rule disjI1)
    next
      case False
      with eq Inr have "d' = d\<lparr>users := users d @ [?u], companies := companies d @ [?c]\<rparr>"
        and "r = Success 201 (Token uid (rv_email v) cid, (uid, rv_email v),
                        (cid, rv_companyName v, rv_industry v, rv_description v))"
        by (auto simp: register_result)
      then have "d' = d\<lparr>users := users d @ [?u], companies := companies d @ [?c]\<rparr> \<and>
        usr_id ?u = uid \<and> c_id ?c = cid \<and> c_user_id ?c = usr_id ?u \<and>
        r = Success 201 (Token uid (rv_email v) cid, (uid, rv_email v),
                        (cid, rv_companyName v, rv_industry v, rv_description v))"
        by simp
      then show ?thesis by blast
    qed
  qed
qed

lemma sample_register_body_valid:
  "registerSchema email_shape sample_register_body =
     Inr \<lparr> rv_email = ''a@x.com'', rv_password = ''correct horse'',
           rv_companyName = ''Bridge Builders'', rv_industry = ''Construction'',
           rv_description = None \<rparr>"
  by (simp add: registerSchema_def sample_register_body_def email_shape_def)

text \<open>
  The theorem at an example: the insert of the organization fails after the insert of the
  account. The answer is a failure, so the store is as before: the account is not there.
\<close>

theorem register_atomic_witness:
  "register email_shape sample_hash company_insert_fails 100 ''user-a'' ''company-a''
     (sample_db [] []) sample_register_body =
   (sample_db [] [], Failure 500 (Text ''Internal server error''))"
proof -
  let ?r = "register email_shape sample_hash company_insert_fails 100 ''user-a'' ''company-a''
              (sample_db [] []) sample_register_body"
  have answer: "snd ?r = Failure 500 (Text ''Internal server error'')"
    by (simp add: register_result sample_register_body_valid company_insert_fails_def
        sample_db_def)
  have "?r = (fst ?r, snd ?r)" by simp
  from register_atomic [OF this] answer have "fst ?r = sample_db [] []"
    by auto
  with answer show ?thesis by (simp add: prod_eq_iff)
qed

text \<open>When no insert fails, the registration of the example stores both rows.\<close>

lemma register_stores_both:
  "fst (register email_shape sample_hash no_faults 100 ''user-a'' ''company-a''
          (sample_db [] []) sample_register_body) =
   (sample_db [] [])
     \<lparr> users := [\<lparr> usr_id = ''user-a'', usr_email = ''a@x.com'',
                   usr_password_hash = ''hash of correct horse'', usr_created_at = 100 \<rparr>],
       companies := [\<lparr> c_id = ''company-a'', c_user_id = ''user-a'',
                       c_name = ''Bridge Builders'', c_industry = ''Construction'',
                       c_description = None, c_logo_url = None, c_created_at = 100 \<rparr>] \<rparr>"
  by (simp add: register_result sample_register_body_valid no_faults_def sample_db_def
      sample_hash_def)

section \<open>Listing and searching\<close>

lemma tl_status_listing: "tl_status (listing (t, c)) = t_status t"
  by (simp add: listing_def)

lemma set_page_of: "x \<in> set (page_of limit offset rows) \<Longrightarrow> x \<in> set rows"
  unfolding page_of_def by (blast dest: in_set_takeD in_set_dropD)

text \<open>
  Without a search text the listing shows tenders of one status only: the status asked for,
  or open when none is asked for.
\<close>

lemma get_tenders_status_without_search:
  assumes "\<not> truthy search"
    and "get_tenders d page_parsed limit_parsed status search = Success 200 (shown, pg)"
    and "x \<in> set shown"
  shows "tl_status x = (case status of None \<Rightarrow> ''open'' | Some s \<Rightarrow> if s = [] then ''open'' else s)"
  using assms unfolding get_tenders_def truthy_def
  by (auto simp: Let_def tl_status_listing split: if_splits option.splits dest!: set_page_of)

text \<open>
  Claim C6 at a request with a search text. The store holds one tender, a draft whose
  description contains the word stone and whose title does not. The listing is asked for
  that word, once without a status and once with the status open: both answers show the
  draft. The flat condition of the query lets a match of the description pass whatever the
  status is; the search route groups the two text comparisons and does not show the draft.
\<close>

theorem get_tenders_search_ignores_status:
  "get_tenders (sample_db [sample_tender ''draft'' 9000] []) None None None (Some ''stone'') =
     Success 200 ([listing (sample_tender ''draft'' 9000, None)],
                  \<lparr> pg_page = 1, pg_limit = 10, pg_total = 0, pg_pages = 0 \<rparr>) \<and>
   get_tenders (sample_db [sample_tender ''draft'' 9000] []) None None (Some ''open'')
       (Some ''stone'') =
     Success 200 ([listing (sample_tender ''draft'' 9000, None)],
                  \<lparr> pg_page = 1, pg_limit = 10, pg_total = 0, pg_pages = 0 \<rparr>) \<and>
   tl_status (listing (sample_tender ''draft'' 9000, None)) = ''draft''"
  by code_simp


section \<open>The search facade\<close>

lemma length_last_page:
  assumes "0 < limit" and "0 < k" and "int (length rows) = k * limit"
  shows "int (length (page_of limit ((k - 1) * limit) rows)) = limit"
proof -
  have off: "(k - 1) * limit = int (length rows) - limit"
    using assms(3) by (simp add: algebra_simps)
  have "1 * limit \<le> k * limit"
    using assms(1,2) by (intro mult_right_mono) simp_all
  then have "limit \<le> int (length rows)" using assms(3) by simp
  then show ?thesis
    using assms(1) unfolding page_of_def off by simp
qed

text \<open>
  Claim C9. In every answer of the two search routes the field \<open>hasMore\<close> says whether the
  number of results shown equals the page size, which is the parsed limit or its default 10.
  In particular, when the whole result has \<open>k\<close> times \<open>limit\<close> entries, page \<open>k\<close>, the last
  one, is full and is answered with \<open>hasMore\<close> true.
\<close>

theorem search_hasMore:
  "(search_companies d q ind pp lp = Success 200 (cs, pg) \<longrightarrow>
      sp_limit pg = or_default lp 10 \<and> hasMore pg = (int (length cs) = sp_limit pg)) \<and>
   (search_tenders d q ind st pp lp = Success 200 (ts, pg') \<longrightarrow>
      sp_limit pg' = or_default lp 10 \<and> hasMore pg' = (int (length ts) = sp_limit pg')) \<and>
   (0 < limit \<and> 0 < k \<and> (truthy q \<or> truthy ind) \<and>
    int (length (matching_companies d q ind)) = k * limit \<longrightarrow>
      search_companies d q ind (Some k) (Some limit) =
        Success 200
          (map (\<lambda>company. (company, goods_services_of d company))
             (page_of limit ((k - 1) * limit) (matching_companies d q ind)),
           \<lparr> sp_page = k, sp_limit = limit, hasMore = True \<rparr>)) \<and>
   (0 < limit \<and> 0 < k \<and> int (length (matching_tenders d q ind st)) = k * limit \<longrightarrow>
      search_tenders d q ind st (Some k) (Some limit) =
        Success 200
          (page_of limit ((k - 1) * limit) (matching_tenders d q ind st),
           \<lparr> sp_page = k, sp_limit = limit, hasMore = True \<rparr>))"
proof (intro conjI impI)
  assume "search_companies d q ind pp lp = Success 200 (cs, pg)"
  then show "sp_limit pg = or_default lp 10" and "hasMore pg = (int (length cs) = sp_limit pg)"
    unfolding search_companies_def
    by (auto simp: Let_def split: if_splits)
next
  assume "search_tenders d q ind st pp lp = Success 200 (ts, pg')"
  then show "sp_limit pg' = or_default lp 10" and "hasMore pg' = (int (length ts) = sp_limit pg')"
    unfolding search_tenders_def
    by (auto simp: Let_def split: if_splits)
next
  assume a: "0 < limit \<and> 0 < k \<and> (truthy q \<or> truthy ind) \<and>
    int (length (matching_companies d q ind)) = k * limit"
  then have len: "int (length (page_of limit ((k - 1) * limit) (matching_companies d q ind))) = limit"
    by (intro length_last_page) simp_all
  from a have nonneg: "\<not> (k - 1) * limit < 0" by (simp add: not_less)
  from a have guard: "\<not> (\<not> truthy q \<and> \<not> truthy ind)" and pos: "\<not> limit < 0" "limit \<noteq> 0" "k \<noteq> 0"
    by auto
  show "search_companies d q ind (Some k) (Some limit) =
        Success 200
          (map (\<lambda>company. (company, goods_services_of d company))
             (page_of limit ((k - 1) * limit) (matching_companies d q ind)),
           \<lparr> sp_page = k, sp_limit = limit, hasMore = True \<rparr>)"
    unfolding search_companies_def or_default_def
    by (simp add: Let_def guard pos nonneg len)
next
  assume a: "0 < limit \<and> 0 < k \<and> int (length (matching_tenders d q ind st)) = k * limit"
  then have len: "int (length (page_of limit ((k - 1) * limit) (matching_tenders d q ind st))) = limit"
    by (intro length_last_page) simp_all
  from a have nonneg: "\<not> (k - 1) * limit < 0" by (simp add: not_less)
  from a have pos: "\<not> limit < 0" "limit \<noteq> 0" "k \<noteq> 0"
    by auto
  show "search_tenders d q ind st (Some k) (Some limit) =
        Success 200
          (page_of limit ((k - 1) * limit) (matching_tenders d q ind st),
           \<lparr> sp_page = k, sp_limit = limit, hasMore = True \<rparr>)"
    unfolding search_tenders_def or_default_def
    by (simp add: Let_def pos nonneg len)
qed

lemma directory_companies:
  "matching_companies directory_db (Some ''e'') None =
     [company_listing_of (sample_company ''company-a'' ''Bridge Builders''),
      company_listing_of (sample_company ''company-b'' ''Stone Works'')]"
  by code_simp

lemma directory_tenders:
  "matching_tenders directory_db (Some ''e'') None None =
     [listing (sample_tender ''open'' 8000, Some (sample_company ''company-a'' ''Bridge Builders'')),
      listing ((sample_tender ''open'' 9000)\<lparr>t_id := ''t2''\<rparr>,
               Some (sample_company ''company-a'' ''Bridge Builders''))]"
  by code_simp

text \<open>
  The theorem at an example: two companies and two tenders match, the page size is two.
\<close>

theorem search_hasMore_witness:
  "search_companies directory_db (Some ''e'') None (Some 1) (Some 2) =
     Success 200
       ([(company_listing_of (sample_company ''company-a'' ''Bridge Builders''), []),
         (company_listing_of (sample_company ''company-b'' ''Stone Works''), [])],
        \<lparr> sp_page = 1, sp_limit = 2, hasMore = True \<rparr>) \<and>
   search_tenders directory_db (Some ''e'') None None (Some 1) (Some 2) =
     Success 200
       (matching_tenders directory_db (Some ''e'') None None,
        \<lparr> sp_page = 1, sp_limit = 2, hasMore = True \<rparr>) \<and>
   length (matching_tenders directory_db (Some ''e'') None None) = 2"
proof -
  have g: "goods_services_of directory_db c = []" for c
    by (simp add: goods_services_of_def directory_db_def)
  have t: "truthy (Some ''e'')" by (simp add: truthy_def)
  from search_hasMore [where d = directory_db and q = "Some ''e''" and ind = None
      and pp = "Some 1" and lp = "Some 2" and st = None and limit = 2 and k = 1
      and cs = "[(company_listing_of (sample_company ''company-a'' ''Bridge Builders''), []),
                 (company_listing_of (sample_company ''company-b'' ''Stone Works''), [])]"
      and pg = "\<lparr> sp_page = 1, sp_limit = 2, hasMore = True \<rparr>"
      and ts = "matching_tenders directory_db (Some ''e'') None None"
      and pg' = "\<lparr> sp_page = 1, sp_limit = 2, hasMore = True \<rparr>"] t
  show ?thesis
    by (simp add: directory_companies directory_tenders g page_of_def)
qed

text \<open>
  Claim C10. Without a text query and without an industry filter (absent or empty) the
  company search answers 400 with its message, whatever the store holds. With one of the
  two it runs the query: the answer is the page of the matching companies, or the 500 of a
  query that fails on a negative limit or offset.
\<close>

theorem search_companies_requires_filter:
  "(\<not> truthy q \<and> \<not> truthy ind \<longrightarrow>
      search_companies d q ind pp lp =
        Failure 400 (Text ''Search query or industry filter is required'')) \<and>
   (truthy q \<or> truthy ind \<longrightarrow>
      search_companies d q ind pp lp =
        (if or_default lp 10 < 0 \<or> (or_default pp 1 - 1) * or_default lp 10 < 0
           then Failure 500 (Text ''Internal server error'')
         else Success 200
           (map (\<lambda>company. (company, goods_services_of d company))
              (page_of (or_default lp 10) ((or_default pp 1 - 1) * or_default lp 10)
                 (matching_companies d q ind)),
            \<lparr> sp_page = or_default pp 1, sp_limit = or_default lp 10,
              hasMore = (int (length (page_of (or_default lp 10)
                                         ((or_default pp 1 - 1) * or_default lp 10)
                                         (matching_companies d q ind)))
                         = or_default lp 10) \<rparr>)))"
  unfolding search_companies_def by (simp add: Let_def)

text \<open>
  The theorem at an example: an empty industry filter alone, and an industry filter alone.
\<close>

theorem search_companies_requires_filter_witness:
  "search_companies directory_db None (Some []) None None =
     Failure 400 (Text ''Search query or industry filter is required'') \<and>
   search_companies directory_db None (Some ''construct'') None None =
     Success 200
       ([(company_listing_of (sample_company ''company-a'' ''Bridge Builders''), []),
         (company_listing_of (sample_company ''company-b'' ''Stone Works''), [])],
        \<lparr> sp_page = 1, sp_limit = 10, hasMore = False \<rparr>)"
proof -
  have g: "goods_services_of directory_db c = []" for c
    by (simp add: goods_services_of_def directory_db_def)
  have m: "matching_companies directory_db None (Some ''construct'') =
     [company_listing_of (sample_company ''company-a'' ''Bridge Builders''),
      company_listing_of (sample_company ''company-b'' ''Stone Works'')]"
    by code_simp
  from search_companies_requires_filter [of None "Some []" directory_db None None]
    search_companies_requires_filter [of None "Some ''construct''" directory_db None None]
  show ?thesis
    by (simp add: truthy_def or_default_def page_of_def m g)
qed


end
